theory Spec2Isabelle
  imports Complex_Main "HOL-Library.AList" "HOL-Library.Multiset"
begin

section \<open>Data model\<close>

text \<open>
  Python floats are modelled as \<^typ>\<open>real\<close>: rounding, infinities and NaN are outside
  the model. Python's unbounded integers are \<^typ>\<open>int\<close>. Every exception the code can
  raise is a value of \<open>error\<close>; a function that can raise returns \<open>error + 'a\<close>.
  The last two constructors are the names the specification uses for typed failures; no
  function of the source raises them.
\<close>

datatype error =
    IndexError
  | ValueError
  | ZeroDivisionError
  | TypeError
  | AttributeError
  | KeyError
  | UnboundLocalError
  | UnknownUserError
  | InvalidWeightError

text \<open>A value stored in a table cell or passed as \<open>target_value: Any\<close>.\<close>

datatype cell = IntV int | FloatV real | StrV string

text \<open>
  One row of the destinations DataFrame. The columns the recommenders read are typed
  fields; every other column of the table is kept by name in \<open>d_extra\<close>.
\<close>

record destination =
  d_destination_id :: int
  d_name :: string
  d_country :: string
  d_landscape_type :: string
  d_overall_sustainability_score :: real
  d_extra :: "(string \<times> cell) list"

record dataframe =
  extra_columns :: "string list"
  rows :: "destination list"


text \<open>
  The dictionary built by \<open>_format_recommendations\<close>. The key \<open>sustainability_score\<close>
  is optional because \<open>apply_weighting_to_recommendations\<close> tests for its presence.
\<close>

record recommendation =
  destination_id :: int
  name :: string
  country :: string
  sustainability_score :: "real option"
  landscape :: string

section \<open>Sustainability weighting schemes (weighting.py)\<close>

definition linear_weighting :: "real \<Rightarrow> real \<Rightarrow> real \<Rightarrow> real" where
  "linear_weighting base_score sust weight = (1 - weight) * base_score + weight * sust"

definition quadratic_weighting :: "real \<Rightarrow> real \<Rightarrow> real \<Rightarrow> real" where
  "quadratic_weighting base_score sust weight =
     (let sustainability_factor = sust ^ 2
      in (1 - weight) * base_score + weight * sustainability_factor)"

definition sigmoid :: "real \<Rightarrow> real" where
  "sigmoid x = 1 / (1 + exp (- 10 * (x - 0.5)))"

definition sigmoid_weighting :: "real \<Rightarrow> real \<Rightarrow> real \<Rightarrow> real" where
  "sigmoid_weighting base_score sust weight =
     (let sustainability_factor = sigmoid sust
      in (1 - weight) * base_score + weight * sustainability_factor)"

text \<open>
  \<open>_threshold_weighting\<close> divides by the threshold when the score lies below it; a
  Python float division by zero raises.
\<close>

definition threshold_weighting :: "real \<Rightarrow> real \<Rightarrow> real \<Rightarrow> real \<Rightarrow> error + real" where
  "threshold_weighting base_score sust weight threshold =
     (if sust < threshold then
        (if threshold = 0 then Inl ZeroDivisionError
         else
           (let penalty = (threshold - sust) / threshold;
                sustainability_factor = sust * (1 - penalty * weight)
            in Inr ((1 - weight) * base_score + weight * sustainability_factor)))
      else Inr ((1 - weight) * base_score + weight * sust))"

text \<open>
  The table \<open>self.weighting_functions\<close>. The only keyword argument any scheme accepts is
  \<open>threshold\<close>, so \<open>**kwargs\<close> is modelled as an optional threshold: \<open>None\<close> is a call
  without extra keyword arguments, and passing one to a scheme that does not take it is
  Python's TypeError.
\<close>

type_synonym weighting_function = "real \<Rightarrow> real \<Rightarrow> real \<Rightarrow> real option \<Rightarrow> error + real"

definition no_kwargs :: "(real \<Rightarrow> real \<Rightarrow> real \<Rightarrow> real) \<Rightarrow> weighting_function" where
  "no_kwargs f base_score sust weight kwargs =
     (case kwargs of None \<Rightarrow> Inr (f base_score sust weight) | Some t \<Rightarrow> Inl TypeError)"

definition threshold_kwargs :: weighting_function where
  "threshold_kwargs base_score sust weight kwargs =
     threshold_weighting base_score sust weight (case kwargs of None \<Rightarrow> 0.7 | Some t \<Rightarrow> t)"

definition weighting_functions :: "(string \<times> weighting_function) list" where
  "weighting_functions =
     [(''linear'', no_kwargs linear_weighting),
      (''quadratic'', no_kwargs quadratic_weighting),
      (''sigmoid'', no_kwargs sigmoid_weighting),
      (''threshold'', threshold_kwargs)]"

text \<open>The loop of \<open>apply_weighting\<close> over \<open>zip(base_scores, sustainability_scores)\<close>.\<close>

fun weight_each :: "weighting_function \<Rightarrow> (real \<times> real) list \<Rightarrow> real \<Rightarrow> real option
    \<Rightarrow> error + real list" where
  "weight_each f [] weight kwargs = Inr []"
| "weight_each f ((base_score, sust) # rest) weight kwargs =
     (case f base_score sust weight kwargs of
        Inl e \<Rightarrow> Inl e
      | Inr weighted \<Rightarrow>
          (case weight_each f rest weight kwargs of
             Inl e \<Rightarrow> Inl e
           | Inr weighted_scores \<Rightarrow> Inr (weighted # weighted_scores)))"

definition apply_weighting :: "real list \<Rightarrow> real list \<Rightarrow> string \<Rightarrow> real \<Rightarrow> real option
    \<Rightarrow> error + real list" where
  "apply_weighting base_scores sustainability_scores scheme weight kwargs =
     (case map_of weighting_functions scheme of
        None \<Rightarrow> Inl ValueError
      | Some weighting_function \<Rightarrow>
          weight_each weighting_function (zip base_scores sustainability_scores) weight kwargs)"

record weighted_rec =
  wr_recommendation :: recommendation
  wr_base_score :: real
  wr_sustainability_score :: real
  wr_weighted_score :: real

text \<open>
  \<open>sorted(xs, key=k, reverse=True)\<close> is a stable sort, descending by key: elements with
  equal keys keep their input order. \<open>sort_key\<close> is a stable insertion sort, ascending.
\<close>

definition sorted_reverse :: "('a \<Rightarrow> real) \<Rightarrow> 'a list \<Rightarrow> 'a list" where
  "sorted_reverse k xs = sort_key (\<lambda>x. - k x) xs"

definition positional_scores :: "nat \<Rightarrow> real list" where
  "positional_scores n_recs = map (\<lambda>i. (real n_recs - real i) / real n_recs) [0..<n_recs]"

definition apply_weighting_to_recommendations ::
    "recommendation list \<Rightarrow> string \<Rightarrow> real \<Rightarrow> real option \<Rightarrow> error + recommendation list" where
  "apply_weighting_to_recommendations recommendations scheme weight kwargs =
     (if recommendations = [] then Inr []
      else
        (let n_recs = length recommendations;
             base_scores = positional_scores n_recs;
             sustainability_scores =
               map (\<lambda>r. case sustainability_score r of Some s \<Rightarrow> s / 10 | None \<Rightarrow> 0.5)
                 recommendations
         in case apply_weighting base_scores sustainability_scores scheme weight kwargs of
              Inl e \<Rightarrow> Inl e
            | Inr weighted_scores \<Rightarrow>
                (let weighted_recs =
                       map (\<lambda>(i, r). \<lparr>wr_recommendation = r,
                                      wr_base_score = base_scores ! i,
                                      wr_sustainability_score = sustainability_scores ! i,
                                      wr_weighted_score = weighted_scores ! i\<rparr>)
                         (enumerate 0 recommendations)
                 in Inr (map wr_recommendation
                           (sorted_reverse wr_weighted_score weighted_recs)))))"

section \<open>Sustainability scorer (sustainability_scorer.py)\<close>

text \<open>
  The scorer holds the destinations table it was constructed with (the lazy load from
  disk of a missing table is not modelled).
\<close>

record sustainability_scorer =
  sc_destinations :: dataframe

definition get_sustainability_score :: "sustainability_scorer \<Rightarrow> int \<Rightarrow> real" where
  "get_sustainability_score self dest_id =
     (case filter (\<lambda>d. d_destination_id d = dest_id) (rows (sc_destinations self)) of
        [] \<Rightarrow> 0.0
      | d # _ \<Rightarrow> d_overall_sustainability_score d)"

definition apply_sustainability_weighting ::
    "sustainability_scorer \<Rightarrow> recommendation list \<Rightarrow> real \<Rightarrow> recommendation list" where
  "apply_sustainability_weighting self recommendations weight =
     (let n_recs = length recommendations;
          weighted_recs =
            map (\<lambda>(i, r).
                   (let dest_id = destination_id r;
                        base_score = (if n_recs > 1 then (real n_recs - real i) / real n_recs
                                      else 1.0);
                        sust = get_sustainability_score self dest_id / 10.0;
                        weighted_score = (1 - weight) * base_score + weight * sust
                    in \<lparr>wr_recommendation = r,
                        wr_base_score = base_score,
                        wr_sustainability_score = sust,
                        wr_weighted_score = weighted_score\<rparr>))
              (enumerate 0 recommendations)
      in map wr_recommendation (sorted_reverse wr_weighted_score weighted_recs))"

section \<open>Base recommenders (base_models.py, neural_cf.py)\<close>

text \<open>
  A recommender object after \<open>load_data\<close> and \<open>fit\<close>: the fields of \<open>BaseRecommender\<close>
  and, in \<open>model\<close>, the fitted state of the subclass (popularity scores, the feature or
  interaction similarity matrix computed by scikit-learn's \<open>cosine_similarity\<close>, or the
  trained network's \<open>predict\<close>). A numpy matrix is a list of rows.
\<close>

datatype model_state =
    PopularityRecommender "real list"
  | ContentBasedRecommender "real list list"
  | CollaborativeFilteringRecommender string "real list list"
  | NeuralCollaborativeFiltering "nat \<Rightarrow> nat \<Rightarrow> real"

record base_recommender =
  rname :: string
  destinations :: dataframe
  interaction_matrix :: "real list list"
  user_ids :: "int list"
  dest_ids :: "int list"
  model :: model_state

text \<open>\<open>np.where(ids == x)[0]\<close>: the positions holding \<open>x\<close>, ascending.\<close>

definition np_where_eq :: "int list \<Rightarrow> int \<Rightarrow> nat list" where
  "np_where_eq ids x = filter (\<lambda>i. ids ! i = x) [0..<length ids]"

definition get_user_index :: "base_recommender \<Rightarrow> int \<Rightarrow> error + nat" where
  "get_user_index self user_id =
     (case np_where_eq (user_ids self) user_id of
        [] \<Rightarrow> Inl IndexError
      | i # _ \<Rightarrow> Inr i)"

definition get_destination_id :: "base_recommender \<Rightarrow> nat \<Rightarrow> error + int" where
  "get_destination_id self dest_index =
     (if dest_index < length (dest_ids self) then Inr (dest_ids self ! dest_index)
      else Inl IndexError)"

fun format_recommendations :: "base_recommender \<Rightarrow> nat list \<Rightarrow> error + recommendation list"
  where
  "format_recommendations self [] = Inr []"
| "format_recommendations self (idx # rest) =
     (case get_destination_id self idx of
        Inl e \<Rightarrow> Inl e
      | Inr dest_id \<Rightarrow>
          (case filter (\<lambda>d. d_destination_id d = dest_id) (rows (destinations self)) of
             [] \<Rightarrow> Inl IndexError
           | dest_info # _ \<Rightarrow>
               (case format_recommendations self rest of
                  Inl e \<Rightarrow> Inl e
                | Inr recommendations \<Rightarrow>
                    Inr (\<lparr>destination_id = dest_id,
                          name = d_name dest_info,
                          country = d_country dest_info,
                          sustainability_score =
                            Some (d_overall_sustainability_score dest_info),
                          landscape = d_landscape_type dest_info\<rparr> # recommendations))))"

text \<open>
  \<open>np.argsort(-scores)\<close>: the indices ordered by descending score. numpy leaves the order
  of equal scores unspecified; the model breaks ties by ascending index.
\<close>

definition argsort_desc :: "real list \<Rightarrow> nat list" where
  "argsort_desc scores = sort_key (\<lambda>i. - (scores ! i)) [0..<length scores]"

definition matrix_row :: "real list list \<Rightarrow> nat \<Rightarrow> error + real list" where
  "matrix_row m i = (if i < length m then Inr (m ! i) else Inl IndexError)"

text \<open>\<open>matrix.shape[1]\<close>.\<close>

definition shape1 :: "real list list \<Rightarrow> nat" where
  "shape1 m = (case m of [] \<Rightarrow> 0 | r # _ \<Rightarrow> length r)"

text \<open>Python's slice \<open>xs[:n]\<close>; a negative \<open>n\<close> drops the last \<open>-n\<close> elements.\<close>

definition py_slice_to :: "int \<Rightarrow> 'a list \<Rightarrow> 'a list" where
  "py_slice_to n xs =
     (if 0 \<le> n then take (nat n) xs else take (length xs - nat (- n)) xs)"

text \<open>\<open>dest_indices[~visited[dest_indices]]\<close> with \<open>visited = row > 0\<close>.\<close>

definition drop_visited :: "real list \<Rightarrow> nat list \<Rightarrow> error + nat list" where
  "drop_visited row dest_indices =
     (if list_ex (\<lambda>i. length row \<le> i) dest_indices then Inl IndexError
      else Inr (filter (\<lambda>i. \<not> row ! i > 0) dest_indices))"

text \<open>
  The tail every \<open>recommend\<close> ends with: sort by score, drop the visited destinations,
  keep the first \<open>n\<close>, format.
\<close>

definition top_n_recommendations ::
    "base_recommender \<Rightarrow> nat \<Rightarrow> real list \<Rightarrow> int \<Rightarrow> bool \<Rightarrow> error + recommendation list" where
  "top_n_recommendations self user_idx scores n exclude_visited =
     (let dest_indices = argsort_desc scores
      in case (if exclude_visited then
                 (case matrix_row (interaction_matrix self) user_idx of
                    Inl e \<Rightarrow> Inl e
                  | Inr row \<Rightarrow> drop_visited row dest_indices)
               else Inr dest_indices) of
           Inl e \<Rightarrow> Inl e
         | Inr dest_indices \<Rightarrow> format_recommendations self (py_slice_to n dest_indices))"

text \<open>
  numpy's in-place \<open>acc += v\<close> on vectors: equal shapes add pointwise, a one-element
  \<open>v\<close> is broadcast, any other shape raises ValueError.
\<close>

definition iadd :: "real list \<Rightarrow> real list \<Rightarrow> error + real list" where
  "iadd acc v =
     (if length v = length acc then Inr (map2 (+) acc v)
      else if length v = 1 then Inr (map (\<lambda>a. a + hd v) acc)
      else Inl ValueError)"

text \<open>\<open>np.sum(matrix, axis=0)\<close>.\<close>

definition column_sums :: "real list list \<Rightarrow> real list" where
  "column_sums m = foldl (map2 (+)) (replicate (shape1 m) 0) m"

definition visited_indices :: "real list \<Rightarrow> nat list" where
  "visited_indices row = filter (\<lambda>i. row ! i > 0) [0..<length row]"

text \<open>\<open>for idx in indices: acc += m[idx]\<close>.\<close>

fun accumulate_rows :: "real list list \<Rightarrow> nat list \<Rightarrow> real list \<Rightarrow> error + real list" where
  "accumulate_rows m [] acc = Inr acc"
| "accumulate_rows m (idx # rest) acc =
     (case matrix_row m idx of
        Inl e \<Rightarrow> Inl e
      | Inr r \<Rightarrow>
          (case iadd acc r of
             Inl e \<Rightarrow> Inl e
           | Inr acc' \<Rightarrow> accumulate_rows m rest acc'))"

text \<open>
  The loop of user-based collaborative filtering over the similar users: a user whose
  similarity is not positive is skipped, any other adds its interaction row scaled by
  its similarity.
\<close>

fun accumulate_similar_users ::
    "real list \<Rightarrow> real list list \<Rightarrow> nat list \<Rightarrow> real list \<Rightarrow> error + real list" where
  "accumulate_similar_users user_similarities m [] scores = Inr scores"
| "accumulate_similar_users user_similarities m (similar_user_idx # rest) scores =
     (if user_similarities ! similar_user_idx \<le> 0
      then accumulate_similar_users user_similarities m rest scores
      else
        (case matrix_row m similar_user_idx of
           Inl e \<Rightarrow> Inl e
         | Inr r \<Rightarrow>
             (case iadd scores (map (\<lambda>x. user_similarities ! similar_user_idx * x) r) of
                Inl e \<Rightarrow> Inl e
              | Inr scores' \<Rightarrow> accumulate_similar_users user_similarities m rest scores')))"

text \<open>\<open>if np.sum(scores) > 0: scores = scores / np.sum(scores)\<close>.\<close>

definition normalize_scores :: "real list \<Rightarrow> real list" where
  "normalize_scores scores =
     (if sum_list scores > 0 then map (\<lambda>s. s / sum_list scores) scores else scores)"

text \<open>
  The score vector of user-based collaborative filtering for the user at \<open>user_idx\<close>,
  together with the similarity matrix as the code leaves it: \<open>user_similarities\<close> is a
  view of the matrix row, so zeroing the self-similarity writes into the matrix.
\<close>

definition user_cf_scores ::
    "real list list \<Rightarrow> real list list \<Rightarrow> nat \<Rightarrow> (error + real list) \<times> real list list" where
  "user_cf_scores similarity_matrix interactions user_idx =
     (case matrix_row similarity_matrix user_idx of
        Inl e \<Rightarrow> (Inl e, similarity_matrix)
      | Inr row \<Rightarrow>
          if length row \<le> user_idx then (Inl IndexError, similarity_matrix)
          else
            (let user_similarities = row[user_idx := 0];
                 similarity_matrix' = similarity_matrix[user_idx := user_similarities];
                 similar_users = take 20 (argsort_desc user_similarities)
             in case accumulate_similar_users user_similarities interactions similar_users
                       (replicate (shape1 interactions) 0) of
                  Inl e \<Rightarrow> (Inl e, similarity_matrix')
                | Inr scores \<Rightarrow> (Inr (normalize_scores scores), similarity_matrix')))"

definition item_cf_scores ::
    "real list list \<Rightarrow> real list list \<Rightarrow> nat \<Rightarrow> nat \<Rightarrow> error + real list" where
  "item_cf_scores similarity_matrix interactions n_dest user_idx =
     (case matrix_row interactions user_idx of
        Inl e \<Rightarrow> Inl e
      | Inr user_interactions \<Rightarrow>
          (case accumulate_rows similarity_matrix (visited_indices user_interactions)
                  (replicate n_dest 0) of
             Inl e \<Rightarrow> Inl e
           | Inr scores \<Rightarrow> Inr (normalize_scores scores)))"

definition popularity_recommend ::
    "base_recommender \<Rightarrow> real list \<Rightarrow> int \<Rightarrow> int \<Rightarrow> bool \<Rightarrow> error + recommendation list" where
  "popularity_recommend self popularity_scores user_id n exclude_visited =
     (case get_user_index self user_id of
        Inl e \<Rightarrow> Inl e
      | Inr user_idx \<Rightarrow> top_n_recommendations self user_idx popularity_scores n exclude_visited)"

text \<open>
  \<open>ContentBasedRecommender.recommend\<close>. For a user without history it builds a fresh
  \<open>PopularityRecommender\<close>, loads the default data directory and fits it; the model
  takes that directory to hold the data this recommender was loaded from.
\<close>

definition content_recommend ::
    "base_recommender \<Rightarrow> real list list \<Rightarrow> int \<Rightarrow> int \<Rightarrow> bool
     \<Rightarrow> error + recommendation list" where
  "content_recommend self feature_similarity user_id n exclude_visited =
     (case get_user_index self user_id of
        Inl e \<Rightarrow> Inl e
      | Inr user_idx \<Rightarrow>
          (case matrix_row (interaction_matrix self) user_idx of
             Inl e \<Rightarrow> Inl e
           | Inr row \<Rightarrow>
               if visited_indices row = [] then
                 popularity_recommend self (column_sums (interaction_matrix self))
                   user_id n exclude_visited
               else
                 (case accumulate_rows feature_similarity (visited_indices row)
                         (replicate (length (dest_ids self)) 0) of
                    Inl e \<Rightarrow> Inl e
                  | Inr similarity_scores \<Rightarrow>
                      top_n_recommendations self user_idx
                        (map (\<lambda>s. s / real (length (visited_indices row))) similarity_scores)
                        n exclude_visited)))"

text \<open>
  \<open>recommend\<close> of every base recommender. It returns the result together with the
  recommender, because user-based collaborative filtering writes into its similarity
  matrix. A collaborative-filtering object whose method is neither \<open>user\<close> nor \<open>item\<close>
  reaches the sort with \<open>scores\<close> unbound.
\<close>

definition recommend ::
    "base_recommender \<Rightarrow> int \<Rightarrow> int \<Rightarrow> bool
     \<Rightarrow> (error + recommendation list) \<times> base_recommender" where
  "recommend self user_id n exclude_visited =
     (case model self of
        PopularityRecommender popularity_scores \<Rightarrow>
          (popularity_recommend self popularity_scores user_id n exclude_visited, self)
      | ContentBasedRecommender feature_similarity \<Rightarrow>
          (content_recommend self feature_similarity user_id n exclude_visited, self)
      | CollaborativeFilteringRecommender method similarity_matrix \<Rightarrow>
          (case get_user_index self user_id of
             Inl e \<Rightarrow> (Inl e, self)
           | Inr user_idx \<Rightarrow>
               if method = ''user'' then
                 (case user_cf_scores similarity_matrix (interaction_matrix self) user_idx of
                    (res, similarity_matrix') \<Rightarrow>
                      (let self' = self\<lparr>model :=
                             CollaborativeFilteringRecommender method similarity_matrix'\<rparr>
                       in case res of
                            Inl e \<Rightarrow> (Inl e, self')
                          | Inr scores \<Rightarrow>
                              (top_n_recommendations self' user_idx scores n exclude_visited,
                               self')))
               else if method = ''item'' then
                 (case item_cf_scores similarity_matrix (interaction_matrix self)
                         (length (dest_ids self)) user_idx of
                    Inl e \<Rightarrow> (Inl e, self)
                  | Inr scores \<Rightarrow>
                      (top_n_recommendations self user_idx scores n exclude_visited, self))
               else (Inl UnboundLocalError, self))
      | NeuralCollaborativeFiltering predict \<Rightarrow>
          (case get_user_index self user_id of
             Inl e \<Rightarrow> (Inl e, self)
           | Inr user_idx \<Rightarrow>
               (top_n_recommendations self user_idx
                  (map (predict user_idx) [0..<length (dest_ids self)]) n exclude_visited,
                self)))"

section \<open>Ensemble combiner (ensemble.py)\<close>

text \<open>
  \<open>HybridRecommender\<close>. \<open>sustainability_scorer\<close> and \<open>destinations\<close> are \<open>None\<close> until
  \<open>load_data\<close> has run on the hybrid object itself.
\<close>

record hybrid_recommender =
  recommenders :: "base_recommender list"
  weights :: "real list"
  sustainability_weight :: real
  sustainability_scorer :: "sustainability_scorer option"
  h_destinations :: "dataframe option"

text \<open>\<open>HybridRecommender()\<close> with the constructor's defaults.\<close>

definition empty_hybrid :: hybrid_recommender where
  "empty_hybrid =
     \<lparr>recommenders = [], weights = [], sustainability_weight = 0.3,
      sustainability_scorer = None, h_destinations = None\<rparr>"

text \<open>
  \<open>add_recommender\<close> appends, then divides every stored weight by the sum of the stored
  weights. The division raises when that sum is zero, after both lists were extended.
\<close>

definition add_recommender ::
    "hybrid_recommender \<Rightarrow> base_recommender \<Rightarrow> real \<Rightarrow> (error + unit) \<times> hybrid_recommender"
  where
  "add_recommender self recommender weight =
     (let self1 = self\<lparr>recommenders := recommenders self @ [recommender],
                       weights := weights self @ [weight]\<rparr>;
          total_weight = sum_list (weights self1)
      in if total_weight = 0 then (Inl ZeroDivisionError, self1)
         else (Inr (), self1\<lparr>weights := map (\<lambda>w. w / total_weight) (weights self1)\<rparr>))"

text \<open>A sequence of \<open>add_recommender\<close> calls; an exception ends it.\<close>

fun add_recommenders ::
    "hybrid_recommender \<Rightarrow> (base_recommender \<times> real) list
     \<Rightarrow> (error + unit) \<times> hybrid_recommender" where
  "add_recommenders self [] = (Inr (), self)"
| "add_recommenders self ((recommender, weight) # calls) =
     (case add_recommender self recommender weight of
        (Inl e, self') \<Rightarrow> (Inl e, self')
      | (Inr u, self') \<Rightarrow> add_recommenders self' calls)"







section \<open>Counterfactual engine (counterfactual.py)\<close>






















section \<open>Fixtures: concrete scenario A of the specification\<close>

definition scenario_rec :: "int \<Rightarrow> real \<Rightarrow> recommendation" where
  "scenario_rec i s =
     \<lparr>destination_id = i, name = [], country = [], sustainability_score = Some s,
      landscape = []\<rparr>"

definition scenario_row :: "int \<Rightarrow> real \<Rightarrow> destination" where
  "scenario_row i s =
     \<lparr>d_destination_id = i, d_name = [], d_country = [], d_landscape_type = [],
      d_overall_sustainability_score = s, d_extra = []\<rparr>"

definition scenario_A_recs :: "recommendation list" where
  "scenario_A_recs =
     [scenario_rec 1 9, scenario_rec 2 2, scenario_rec 3 5, scenario_rec 4 8, scenario_rec 5 3]"

definition scenario_A_table :: dataframe where
  "scenario_A_table =
     \<lparr>extra_columns = [],
      rows = [scenario_row 1 9, scenario_row 2 2, scenario_row 3 5, scenario_row 4 8,
              scenario_row 5 3]\<rparr>"

definition scenario_A_scorer :: sustainability_scorer where
  "scenario_A_scorer = \<lparr>sc_destinations = scenario_A_table\<rparr>"

section \<open>Fixtures: a three-destination data set\<close>

text \<open>
  Three destinations 1, 2, 3 with sustainability scores 0, 10, 5 and three users 100,
  200, 300; user 100 has no visits, user 200 visited 1 and 2, user 300 visited 1.
\<close>

definition demo_table :: dataframe where
  "demo_table =
     \<lparr>extra_columns = [], rows = [scenario_row 1 0, scenario_row 2 10, scenario_row 3 5]\<rparr>"

definition demo_matrix :: "real list list" where
  "demo_matrix = [[0, 0, 0], [1, 1, 0], [1, 0, 0]]"

text \<open>A fitted \<open>PopularityRecommender\<close>: the scores are the column sums.\<close>

definition demo_popularity :: base_recommender where
  "demo_popularity =
     \<lparr>rname = ''PopularityRecommender'', destinations = demo_table,
      interaction_matrix = demo_matrix, user_ids = [100, 200, 300], dest_ids = [1, 2, 3],
      model = PopularityRecommender [2, 1, 0]\<rparr>"



section \<open>Predicates used to state the properties\<close>



















section \<open>Verification: sustainability reranking\<close>

lemma sorted_reverse_id:
  "sorted_wrt (\<lambda>a b. k a \<ge> k b) xs \<Longrightarrow> sorted_reverse k xs = xs"
  unfolding sorted_reverse_def
  by (rule sort_key_id_if_sorted) (simp add: sorted_map sorted_wrt_map)

lemma weight_each_zero:
  "(\<And>b s. f b s 0 kw = Inr b) \<Longrightarrow> weight_each f ps 0 kw = Inr (map fst ps)"
  by (induction ps) auto

lemma known_scheme_zero:
  assumes "map_of weighting_functions scheme = Some f"
  shows "f b s 0 None = Inr b"
  using assms
  by (auto simp: weighting_functions_def no_kwargs_def linear_weighting_def
      quadratic_weighting_def sigmoid_weighting_def threshold_kwargs_def
      threshold_weighting_def Let_def split: if_splits)

lemma known_scheme_iff:
  "scheme \<in> {''linear'', ''quadratic'', ''sigmoid'', ''threshold''} \<longleftrightarrow>
   (\<exists>f. map_of weighting_functions scheme = Some f)"
  by (auto simp: weighting_functions_def)

lemma length_positional_scores [simp]: "length (positional_scores n) = n"
  by (simp add: positional_scores_def)

lemma nth_positional_scores:
  "i < n \<Longrightarrow> positional_scores n ! i = (real n - real i) / real n"
  by (simp add: positional_scores_def)

lemma positional_scores_decreasing:
  "i < j \<Longrightarrow> j < n \<Longrightarrow> positional_scores n ! j < positional_scores n ! i"
  by (simp add: nth_positional_scores divide_strict_right_mono)

lemma enumerate_sorted_by_index:
  assumes "\<And>i j. i < j \<Longrightarrow> j < length xs \<Longrightarrow> k (g (j, xs ! j)) \<le> k (g (i, xs ! i))"
  shows "sorted_wrt (\<lambda>a b. k a \<ge> k b) (map g (enumerate 0 xs))"
  using assms by (auto simp: sorted_wrt_iff_nth_less nth_enumerate_eq)

lemma map_enumerate_project:
  "(\<And>i r. h (g (i, r)) = r) \<Longrightarrow> map h (map g (enumerate n xs)) = xs"
  by (induction xs arbitrary: n) simp_all

text \<open>
  C2. With weight 0 both rerankers return the candidates in the input order: every known
  scheme (called without extra keyword arguments) blends to the positional base score,
  which strictly decreases along the list, and the descending sort is stable. The
  statement also covers the empty list.
\<close>

theorem rerank_weight_zero_identity:
  assumes "scheme \<in> {''linear'', ''quadratic'', ''sigmoid'', ''threshold''}"
  shows "apply_weighting_to_recommendations recs scheme 0 None = Inr recs
       \<and> apply_sustainability_weighting scorer recs 0 = recs"
proof
  obtain f where f: "map_of weighting_functions scheme = Some f"
    using assms known_scheme_iff by blast
  show "apply_weighting_to_recommendations recs scheme 0 None = Inr recs"
  proof (cases "recs = []")
    case True
    then show ?thesis by (simp add: apply_weighting_to_recommendations_def)
  next
    case False
    let ?n = "length recs"
    let ?ss = "map (\<lambda>r. case sustainability_score r of Some s \<Rightarrow> s / 10 | None \<Rightarrow> 0.5) recs"
    have aw: "apply_weighting (positional_scores ?n) ?ss scheme 0 None
                = Inr (positional_scores ?n)"
      using f weight_each_zero [of f None, OF known_scheme_zero [OF f]]
      by (simp add: apply_weighting_def)
    let ?g = "\<lambda>(i, r). \<lparr>wr_recommendation = r,
                         wr_base_score = positional_scores ?n ! i,
                         wr_sustainability_score = ?ss ! i,
                         wr_weighted_score = positional_scores ?n ! i\<rparr>"
    have "sorted_wrt (\<lambda>a b. wr_weighted_score a \<ge> wr_weighted_score b)
            (map ?g (enumerate 0 recs))"
      by (rule enumerate_sorted_by_index)
         (simp add: less_imp_le positional_scores_decreasing)
    then have "sorted_reverse wr_weighted_score (map ?g (enumerate 0 recs))
                 = map ?g (enumerate 0 recs)"
      by (rule sorted_reverse_id)
    moreover have "map wr_recommendation (map ?g (enumerate 0 recs)) = recs"
      by (rule map_enumerate_project) simp
    ultimately show ?thesis
      using False aw by (simp add: apply_weighting_to_recommendations_def Let_def)
  qed
next
  let ?n = "length recs"
  let ?g = "\<lambda>(i, r). \<lparr>wr_recommendation = r,
       wr_base_score = (if ?n > 1 then (real ?n - real i) / real ?n else 1.0),
       wr_sustainability_score = get_sustainability_score scorer (destination_id r) / 10.0,
       wr_weighted_score = (if ?n > 1 then (real ?n - real i) / real ?n else 1.0)\<rparr>"
  have "sorted_wrt (\<lambda>a b. wr_weighted_score a \<ge> wr_weighted_score b)
          (map ?g (enumerate 0 recs))"
    by (rule enumerate_sorted_by_index) (simp add: divide_right_mono)
  then have "sorted_reverse wr_weighted_score (map ?g (enumerate 0 recs))
               = map ?g (enumerate 0 recs)"
    by (rule sorted_reverse_id)
  moreover have "map wr_recommendation (map ?g (enumerate 0 recs)) = recs"
    by (rule map_enumerate_project) simp
  ultimately show "apply_sustainability_weighting scorer recs 0 = recs"
    by (simp add: apply_sustainability_weighting_def Let_def split_def)
qed

theorem rerank_weight_zero_identity_witness:
  "apply_weighting_to_recommendations scenario_A_recs ''quadratic'' 0 None
     = Inr scenario_A_recs
   \<and> apply_sustainability_weighting scenario_A_scorer scenario_A_recs 0 = scenario_A_recs"
  using rerank_weight_zero_identity [of "''quadratic''" scenario_A_recs scenario_A_scorer]
  by simp

lemma positional_scores_5:
  "positional_scores (Suc (Suc (Suc (Suc (Suc 0))))) = [1, 0.8, 0.6, 0.4, 0.2]"
  by (simp add: positional_scores_def upt_rec)

text \<open>
  C8. Scenario A: destinations 1..5 with sustainability scores 9, 2, 5, 8, 3 in base
  order (positional base scores 1.0, 0.8, 0.6, 0.4, 0.2), weight 1.0, linear scheme:
  both rerankers return the order 1, 4, 3, 5, 2.
\<close>

theorem scenario_A_order:
  "positional_scores 5 = [1, 0.8, 0.6, 0.4, 0.2]
   \<and> apply_weighting_to_recommendations scenario_A_recs ''linear'' 1 None
       = Inr [scenario_rec 1 9, scenario_rec 4 8, scenario_rec 3 5, scenario_rec 5 3,
              scenario_rec 2 2]
   \<and> map destination_id (apply_sustainability_weighting scenario_A_scorer scenario_A_recs 1)
       = [1, 4, 3, 5, 2]"
proof (intro conjI)
  show "positional_scores 5 = [1, 0.8, 0.6, 0.4, 0.2]"
    by (simp add: positional_scores_def upt_rec)
  show "apply_weighting_to_recommendations scenario_A_recs ''linear'' 1 None
       = Inr [scenario_rec 1 9, scenario_rec 4 8, scenario_rec 3 5, scenario_rec 5 3,
              scenario_rec 2 2]"
    by (simp add: apply_weighting_to_recommendations_def scenario_A_recs_def
        positional_scores_5 apply_weighting_def weighting_functions_def no_kwargs_def
        linear_weighting_def sorted_reverse_def scenario_rec_def Let_def)
  show "map destination_id (apply_sustainability_weighting scenario_A_scorer scenario_A_recs 1)
       = [1, 4, 3, 5, 2]"
    by (simp add: apply_sustainability_weighting_def scenario_A_recs_def
        scenario_A_scorer_def scenario_A_table_def get_sustainability_score_def
        sorted_reverse_def scenario_rec_def scenario_row_def Let_def)
qed

section \<open>Verification: failures of apply_weighting\<close>






section \<open>Verification: ensemble weights\<close>

lemma sum_list_map_divide:
  fixes t :: real
  shows "sum_list (map (\<lambda>w. w / t) ws) = sum_list ws / t"
  by (induction ws) (simp_all add: add_divide_distrib)

lemma add_recommender_positive:
  assumes nonneg: "\<forall>v \<in> set (weights self). 0 \<le> v" and pos: "0 < w"
  shows "\<exists>self'. add_recommender self r w = (Inr (), self')
           \<and> (\<forall>v \<in> set (weights self'). 0 \<le> v)
           \<and> sum_list (weights self') = 1"
proof -
  have "0 \<le> sum_list (weights self)"
    using nonneg by (simp add: sum_list_nonneg)
  then have total: "0 < sum_list (weights self) + w"
    using pos by simp
  have one: "sum_list (weights self) / (sum_list (weights self) + w)
               + w / (sum_list (weights self) + w) = 1"
    using total by (simp flip: add_divide_distrib)
  from total show ?thesis
    using nonneg pos one
    by (auto simp: add_recommender_def Let_def sum_list_map_divide)
qed

lemma add_recommenders_positive:
  assumes "calls \<noteq> []" and "\<forall>c \<in> set calls. 0 < snd c"
    and "\<forall>v \<in> set (weights self). 0 \<le> v"
  shows "\<exists>self'. add_recommenders self calls = (Inr (), self')
           \<and> (\<forall>v \<in> set (weights self'). 0 \<le> v)
           \<and> sum_list (weights self') = 1"
  using assms
proof (induction calls arbitrary: self)
  case Nil
  then show ?case by simp
next
  case (Cons c calls)
  obtain r w where c: "c = (r, w)" by (cases c)
  with Cons.prems have "0 < w" by simp
  from add_recommender_positive [OF Cons.prems(3) this, of r]
  obtain self1 where s1: "add_recommender self r w = (Inr (), self1)"
      "\<forall>v \<in> set (weights self1). 0 \<le> v" "sum_list (weights self1) = 1"
    by blast
  show ?case
  proof (cases "calls = []")
    case True
    with s1 c show ?thesis by simp
  next
    case False
    from Cons.IH [OF False _ s1(2)] Cons.prems(2)
    obtain self' where "add_recommenders self1 calls = (Inr (), self')"
      "\<forall>v \<in> set (weights self'). 0 \<le> v" "sum_list (weights self') = 1"
      by auto
    with s1 c show ?thesis by simp
  qed
qed

text \<open>
  C9. Starting from an empty \<open>HybridRecommender\<close>, every non-empty sequence of
  \<open>add_recommender\<close> calls with positive raw weights completes without an exception and
  leaves stored weights that sum to 1 (exactly, in real arithmetic).
\<close>

theorem add_recommender_weights_sum_to_one:
  assumes "calls \<noteq> []" and "\<forall>c \<in> set calls. 0 < snd c"
  shows "\<exists>self'. add_recommenders empty_hybrid calls = (Inr (), self')
           \<and> sum_list (weights self') = 1"
  using add_recommenders_positive [OF assms, of empty_hybrid]
  by (auto simp: empty_hybrid_def)

theorem add_recommender_weights_sum_to_one_witness:
  "\<exists>self'. add_recommenders empty_hybrid
              [(demo_popularity, 1/10), (demo_popularity, 3/10), (demo_popularity, 3/10)]
            = (Inr (), self')
          \<and> sum_list (weights self') = 1"
  using add_recommender_weights_sum_to_one
    [of "[(demo_popularity, 1/10), (demo_popularity, 3/10), (demo_popularity, 3/10)]"]
  by simp

text \<open>
  C10. Two calls with positive raw weights \<open>a\<close> then \<open>b\<close> on an empty
  \<open>HybridRecommender\<close> leave the stored weights \<open>[1/(1+b), b/(1+b)]\<close>, whatever \<open>a\<close> is:
  the first call normalises \<open>a\<close> to 1 before the second weight arrives.
\<close>

theorem first_raw_weight_is_forgotten:
  assumes "0 < a" and "0 < b"
  shows "\<exists>self'. add_recommenders empty_hybrid [(r1, a), (r2, b)] = (Inr (), self')
           \<and> weights self' = [1 / (1 + b), b / (1 + b)]"
  using assms by (simp add: add_recommender_def empty_hybrid_def Let_def)

theorem first_raw_weight_is_forgotten_witness:
  "\<exists>self'. add_recommenders empty_hybrid [(demo_popularity, 1/10), (demo_popularity, 3/10)]
            = (Inr (), self')
          \<and> weights self' = [10/13, 3/13]"
  using first_raw_weight_is_forgotten [of "1/10" "3/10" demo_popularity demo_popularity]
  by simp

section \<open>Verification: base recommenders\<close>

lemmas demo_defs = demo_popularity_def demo_table_def demo_matrix_def scenario_row_def
  scenario_rec_def

lemmas base_defs = recommend_def popularity_recommend_def get_user_index_def np_where_eq_def
  top_n_recommendations_def argsort_desc_def matrix_row_def drop_visited_def py_slice_to_def
  get_destination_id_def

lemma np_where_eq_empty_iff: "np_where_eq ids x = [] \<longleftrightarrow> x \<notin> set ids"
  by (auto simp: np_where_eq_def filter_empty_conv in_set_conv_nth)

lemma get_user_index_unknown:
  "user_id \<notin> set (user_ids self) \<Longrightarrow> get_user_index self user_id = Inl IndexError"
  using np_where_eq_empty_iff [of "user_ids self" user_id]
  by (simp add: get_user_index_def)

text \<open>
  C6, as stated, fails: for a user id that is not in the index the lookup
  \<open>np.where(...)[0][0]\<close> raises IndexError, not a typed UnknownUserError.
\<close>

theorem unknown_user_raises_index_error:
  "fst (recommend demo_popularity 999 5 True) = Inl IndexError
   \<and> fst (recommend demo_popularity 999 5 True) \<noteq> Inl UnknownUserError"
  by (simp add: base_defs demo_defs)

text \<open>
  C6, amended. For every user id that is absent from the user index, \<open>recommend\<close> of every
  base recommender (popularity, content-based, collaborative filtering, neural) raises
  IndexError, returns no list and leaves the recommender unchanged.
\<close>

theorem unknown_user_index_error:
  assumes "user_id \<notin> set (user_ids self)"
  shows "recommend self user_id n exclude_visited = (Inl IndexError, self)"
  using get_user_index_unknown [OF assms]
  by (simp add: recommend_def popularity_recommend_def content_recommend_def
      split: model_state.splits)

theorem unknown_user_index_error_witness:
  "7 \<notin> set (user_ids (demo_popularity\<lparr>model := CollaborativeFilteringRecommender ''user'' []\<rparr>))
   \<and> recommend (demo_popularity\<lparr>model := CollaborativeFilteringRecommender ''user'' []\<rparr>)
        7 20 False
     = (Inl IndexError, demo_popularity\<lparr>model := CollaborativeFilteringRecommender ''user'' []\<rparr>)"
  using unknown_user_index_error
    [of 7 "demo_popularity\<lparr>model := CollaborativeFilteringRecommender ''user'' []\<rparr>" 20 False]
  by (simp add: demo_popularity_def)

lemma set_argsort_desc [simp]: "set (argsort_desc scores) = {0..<length scores}"
  by (simp add: argsort_desc_def)

lemma distinct_argsort_desc [simp]: "distinct (argsort_desc scores)"
  by (simp add: argsort_desc_def)






lemma format_recommendations_model [simp]:
  "format_recommendations (self\<lparr>model := m\<rparr>) idxs = format_recommendations self idxs"
  by (induction idxs) (simp_all add: get_destination_id_def cong: list.case_cong)

lemma top_n_recommendations_model [simp]:
  "top_n_recommendations (self\<lparr>model := m\<rparr>) = top_n_recommendations self"
  by (intro ext) (simp add: top_n_recommendations_def Let_def split: sum.splits)


section \<open>Verification: ensemble candidates\<close>










section \<open>Verification: excluding visited destinations\<close>









section \<open>Verification: ensemble scores\<close>
























section \<open>Verification: user-based collaborative filtering\<close>










section \<open>Verification: counterfactual engine\<close>



















end
